theory Spec2Isabelle
  imports Complex_Main "HOL-Library.Log_Nat" "HOL-Library.Sublist"
begin

section \<open>Flight tracking backend: values and numbers\<close>

text \<open>
  The backend (\<^verbatim>\<open>src/backend/app.py\<close>) is a set of request handlers over three
  collections of a document store. This theory embeds the handlers that ingest a position
  report (\<^verbatim>\<open>update_flight\<close>), archive one flight (\<^verbatim>\<open>complete_flight\<close>), sweep landed flights
  (\<^verbatim>\<open>auto_complete_landed_flights\<close>), and the geographic helpers they call.

  A field value of a report or of a stored document is a scalar: JSON null, a boolean, a
  number, a string, or (after parsing, inside the store) an instant. \<open>VNum r\<close> is a JSON
  number as \<^verbatim>\<open>json.loads\<close> returns it: a Python integer of any size, or a finite double.
  \<^verbatim>\<open>json.loads\<close> also accepts the literals \<^verbatim>\<open>Infinity\<close>, \<^verbatim>\<open>-Infinity\<close> and \<^verbatim>\<open>NaN\<close>. Arrays and
  nested objects as field values are not represented. Instants are integers, the
  milliseconds the store keeps.
\<close>

datatype val = VNull | VBool bool | VNum real | VPosInf | VNegInf | VNaN | VStr string | VTime int

type_synonym doc = "string \<rightharpoonup> val"

text \<open>Python's truth value of a scalar, as used by \<^verbatim>\<open>not source\<close>.\<close>

definition truthy :: "val \<Rightarrow> bool" where
  "truthy v = (case v of VNull \<Rightarrow> False | VBool b \<Rightarrow> b | VNum r \<Rightarrow> r \<noteq> 0
                 | VStr s \<Rightarrow> s \<noteq> [] | _ \<Rightarrow> True)"

text \<open>The exceptions of Python that the embedded code can raise.\<close>

datatype py_error =
  ZeroDivisionError | ValueError | TypeError | OverflowError | KeyError | AttributeError

subsection \<open>Binary64 arithmetic\<close>

text \<open>
  Python floats are IEEE 754 binary64 numbers. A finite double is represented by the real
  number it denotes; \<open>pyfloat\<close> adds the two infinities and NaN, which a report can carry
  into the numeric fields. \<open>fl\<close> rounds a real to the nearest double, ties to even, with a
  significand of 53 bits and no bound on the exponent (every number rounded below is a
  coordinate in degrees, an angle, a distance in kilometres or a percentage; the model does
  not flush to the subnormal grid below \<open>2 ^ -1022\<close>). The four operations round the exact
  result, as IEEE 754 prescribes; a decimal literal of the source denotes \<open>fl\<close> of its
  decimal value.
\<close>

datatype pyfloat = Fin real | PosInf | NegInf | NaN

definition round_half_even :: "real \<Rightarrow> int" where
  "round_half_even y =
     (let f = \<lfloor>y\<rfloor>; d = y - of_int f
      in if d < 1 / 2 then f else if 1 / 2 < d then f + 1 else if even f then f else f + 1)"

definition pow2 :: "int \<Rightarrow> real" where
  "pow2 k = (if 0 \<le> k then 2 ^ nat k else 1 / 2 ^ nat (- k))"

text \<open>
  \<open>expo x\<close> is an exponent \<open>e\<close> with \<open>2 ^ e \<le> \<bar>x\<bar> \<le> 2 ^ (e + 1)\<close>, so that
  \<open>x * 2 ^ (52 - e)\<close> has magnitude between \<open>2 ^ 52\<close> and \<open>2 ^ 53\<close>, where the
  doubles are exactly the integers.
\<close>

definition expo :: "real \<Rightarrow> int" where
  "expo x = (if 1 \<le> \<bar>x\<bar> then bitlen \<lfloor>\<bar>x\<bar>\<rfloor> - 1 else - bitlen \<lfloor>1 / \<bar>x\<bar>\<rfloor>)"

definition fl :: "real \<Rightarrow> real" where
  "fl x = (if x = 0 then 0
           else let k = 52 - expo x in of_int (round_half_even (x * pow2 k)) / pow2 k)"

definition fadd :: "real \<Rightarrow> real \<Rightarrow> real" where "fadd x y = fl (x + y)"
definition fsub :: "real \<Rightarrow> real \<Rightarrow> real" where "fsub x y = fl (x - y)"
definition fmul :: "real \<Rightarrow> real \<Rightarrow> real" where "fmul x y = fl (x * y)"
definition fdiv :: "real \<Rightarrow> real \<Rightarrow> real" where "fdiv x y = fl (x / y)"

text \<open>
  \<^verbatim>\<open>round(x, 2)\<close> on a double: the exact value is rounded to two decimals, ties to even, and
  the decimal result is converted back to the nearest double.
\<close>

definition py_round2 :: "real \<Rightarrow> real" where
  "py_round2 x = fl (of_int (round_half_even (x * 100)) / 100)"

text \<open>
  \<^verbatim>\<open>math.sqrt\<close> is correctly rounded and raises \<^verbatim>\<open>ValueError\<close> on a negative argument.
\<close>

definition py_sqrt :: "real \<Rightarrow> py_error + real" where
  "py_sqrt x = (if x < 0 then Inl ValueError else Inr (fl (sqrt x)))"

text \<open>
  \<^verbatim>\<open>math.radians(x)\<close> is \<^verbatim>\<open>x * (pi / 180.0)\<close> in doubles, where \<^verbatim>\<open>pi\<close> is the double nearest
  to \<open>\<pi>\<close>, \<open>884279719003555 / 2 ^ 48\<close>.
\<close>

definition radians :: "real \<Rightarrow> real" where
  "radians x = fmul x (fdiv (884279719003555 / 281474976710656) 180)"

text \<open>
  The library the handlers run on. The two parsers called on strings: \<^verbatim>\<open>float\<close> and
  \<^verbatim>\<open>datetime.fromisoformat\<close>, \<open>None\<close> where they raise \<^verbatim>\<open>ValueError\<close>. The functions
  \<^verbatim>\<open>math.sin\<close>, \<^verbatim>\<open>math.cos\<close> and \<^verbatim>\<open>math.atan2\<close> of the platform, from doubles to doubles: the
  language does not fix their results bit for bit, so they are parameters of the model.
\<close>

record pylib =
  float_of_str :: "string \<Rightarrow> pyfloat option"
  fromisoformat :: "string \<Rightarrow> int option"
  m_sin :: "real \<Rightarrow> real"
  m_cos :: "real \<Rightarrow> real"
  m_atan2 :: "real \<Rightarrow> real \<Rightarrow> real"

subsection \<open>The airport table\<close>

record airport =
  ap_lat :: real
  ap_lon :: real
  ap_name :: string

definition AIRPORTS_items :: "(string \<times> airport) list" where
  "AIRPORTS_items =
    [(''JFK'', \<lparr>ap_lat = fl (406413 / 10000), ap_lon = fl (- 737781 / 10000),
              ap_name = ''John F. Kennedy International''\<rparr>),
     (''LAX'', \<lparr>ap_lat = fl (339416 / 10000), ap_lon = fl (- 1184085 / 10000),
              ap_name = ''Los Angeles International''\<rparr>),
     (''ORD'', \<lparr>ap_lat = fl (419786 / 10000), ap_lon = fl (- 879048 / 10000),
              ap_name = ''Chicago O'Hare International''\<rparr>),
     (''DFW'', \<lparr>ap_lat = fl (328968 / 10000), ap_lon = fl (- 970380 / 10000),
              ap_name = ''Dallas/Fort Worth International''\<rparr>),
     (''ATL'', \<lparr>ap_lat = fl (336407 / 10000), ap_lon = fl (- 844277 / 10000),
              ap_name = ''Hartsfield-Jackson Atlanta International''\<rparr>),
     (''DEN'', \<lparr>ap_lat = fl (398561 / 10000), ap_lon = fl (- 1046737 / 10000),
              ap_name = ''Denver International''\<rparr>),
     (''SFO'', \<lparr>ap_lat = fl (376213 / 10000), ap_lon = fl (- 1223790 / 10000),
              ap_name = ''San Francisco International''\<rparr>),
     (''SEA'', \<lparr>ap_lat = fl (474502 / 10000), ap_lon = fl (- 1223088 / 10000),
              ap_name = ''Seattle-Tacoma International''\<rparr>),
     (''BOS'', \<lparr>ap_lat = fl (423656 / 10000), ap_lon = fl (- 710096 / 10000),
              ap_name = ''Logan International''\<rparr>),
     (''MIA'', \<lparr>ap_lat = fl (257959 / 10000), ap_lon = fl (- 802871 / 10000),
              ap_name = ''Miami International''\<rparr>),
     (''LHR'', \<lparr>ap_lat = fl (514700 / 10000), ap_lon = fl (- 4543 / 10000),
              ap_name = ''London Heathrow''\<rparr>),
     (''CDG'', \<lparr>ap_lat = fl (490097 / 10000), ap_lon = fl (25479 / 10000),
              ap_name = ''Charles de Gaulle''\<rparr>),
     (''NRT'', \<lparr>ap_lat = fl (357720 / 10000), ap_lon = fl (1403928 / 10000),
              ap_name = ''Narita International''\<rparr>),
     (''DXB'', \<lparr>ap_lat = fl (252532 / 10000), ap_lon = fl (553657 / 10000),
              ap_name = ''Dubai International''\<rparr>)]"

definition AIRPORTS :: "string \<rightharpoonup> airport" where
  "AIRPORTS = map_of AIRPORTS_items"

text \<open>
  The guard \<^verbatim>\<open>not source or ... or source not in AIRPORTS\<close> together with the lookup
  \<^verbatim>\<open>AIRPORTS[source]\<close>: \<open>None\<close> exactly when the guard rejects the code (a falsy value, a
  value that is not a string, or a string that is not a key of the table).
\<close>

definition airport_of :: "val \<Rightarrow> airport option" where
  "airport_of code =
     (if \<not> truthy code then None
      else case code of VStr s \<Rightarrow> AIRPORTS s | _ \<Rightarrow> None)"

subsection \<open>Distance and route progress\<close>

text \<open>
  The haversine distance, every operation in doubles and in the order in which Python
  evaluates the expression. \<^verbatim>\<open>math.sqrt(1-a)\<close> raises \<^verbatim>\<open>ValueError\<close> when the rounded \<open>a\<close>
  exceeds 1; \<^verbatim>\<open>math.sqrt(a)\<close> is evaluated first.
\<close>

definition calculate_distance ::
  "pylib \<Rightarrow> real \<Rightarrow> real \<Rightarrow> real \<Rightarrow> real \<Rightarrow> py_error + real" where
  "calculate_distance P lat1 lon1 lat2 lon2 =
     (let R = 6371;
          dlat = radians (fsub lat2 lat1);
          dlon = radians (fsub lon2 lon1);
          a = fadd (fmul (m_sin P (fdiv dlat 2)) (m_sin P (fdiv dlat 2)))
                (fmul (fmul (fmul (m_cos P (radians lat1)) (m_cos P (radians lat2)))
                         (m_sin P (fdiv dlon 2)))
                   (m_sin P (fdiv dlon 2)))
      in case py_sqrt a of
           Inl e \<Rightarrow> Inl e
         | Inr sqrt_a \<Rightarrow>
             (case py_sqrt (fsub 1 a) of
                Inl e \<Rightarrow> Inl e
              | Inr sqrt_1a \<Rightarrow> Inr (fmul R (fmul 2 (m_atan2 P sqrt_a sqrt_1a)))))"

text \<open>
  An exception of either distance computation leaves \<^verbatim>\<open>calculate_route_progress\<close>; the total
  distance is computed first.
\<close>

definition calculate_route_progress ::
  "pylib \<Rightarrow> real \<Rightarrow> real \<Rightarrow> val \<Rightarrow> val \<Rightarrow> py_error + real" where
  "calculate_route_progress P current_lat current_lon source destination =
     (case (airport_of source, airport_of destination) of
        (Some source_coords, Some dest_coords) \<Rightarrow>
          (case calculate_distance P (ap_lat source_coords) (ap_lon source_coords)
                  (ap_lat dest_coords) (ap_lon dest_coords) of
             Inl e \<Rightarrow> Inl e
           | Inr total_distance \<Rightarrow>
               (case calculate_distance P current_lat current_lon
                       (ap_lat dest_coords) (ap_lon dest_coords) of
                  Inl e \<Rightarrow> Inl e
                | Inr current_to_dest \<Rightarrow>
                    if total_distance = 0 then Inr 100
                    else Inr (py_round2
                           (max 0 (min 100
                              (fmul (fdiv (fsub total_distance current_to_dest) total_distance)
                                 100))))))
      | _ \<Rightarrow> Inr 0)"

subsection \<open>Waypoints\<close>

record waypoint =
  wp_lat :: real
  wp_lon :: real
  wp_progress :: real

text \<open>
  \<^verbatim>\<open>for i in range(num_points + 1)\<close> with \<^verbatim>\<open>progress = i / num_points\<close>: no iteration for a
  negative \<open>num_points\<close>, a division by zero in the first iteration for \<open>num_points = 0\<close>.
  All arithmetic is binary64.
\<close>

definition waypoint_at :: "airport \<Rightarrow> airport \<Rightarrow> int \<Rightarrow> nat \<Rightarrow> waypoint" where
  "waypoint_at source_coords dest_coords num_points i =
     (let progress = fdiv (of_nat i) (of_int num_points);
          lat = fadd (ap_lat source_coords)
                  (fmul (fsub (ap_lat dest_coords) (ap_lat source_coords)) progress);
          lon = fadd (ap_lon source_coords)
                  (fmul (fsub (ap_lon dest_coords) (ap_lon source_coords)) progress)
      in \<lparr>wp_lat = lat, wp_lon = lon, wp_progress = fmul progress 100\<rparr>)"

definition get_route_waypoints :: "val \<Rightarrow> val \<Rightarrow> int \<Rightarrow> py_error + waypoint list" where
  "get_route_waypoints source destination num_points =
     (case (airport_of source, airport_of destination) of
        (Some source_coords, Some dest_coords) \<Rightarrow>
          (if num_points < 0 then Inr []
           else if num_points = 0 then Inl ZeroDivisionError
           else Inr (map (waypoint_at source_coords dest_coords num_points)
                       [0 ..< nat (num_points + 1)]))
      | _ \<Rightarrow> Inr [])"

section \<open>The document store\<close>

text \<open>
  The three collections (\<^verbatim>\<open>database.py\<close>): \<^verbatim>\<open>flights\<close> holds the latest state of each
  active flight, \<^verbatim>\<open>flight_tracking\<close> the history of accepted reports, \<^verbatim>\<open>flight_logs\<close> the
  archive. A collection is the list of its documents in insertion order. Store operations
  are taken to succeed (in particular no report carries an \<^verbatim>\<open>_id\<close> of its own); the handlers
  run one at a time.

  A history document is the report dictionary as \<^verbatim>\<open>update_flight\<close> leaves it before
  \<^verbatim>\<open>insert_one\<close>: the five numeric fields converted to floats, the timestamp parsed,
  \<^verbatim>\<open>received_at\<close> added, every other key as submitted (\<open>tp_others\<close>). Latitude, longitude and
  heading have passed a two-sided range check and are finite; altitude and speed have only
  been checked not to be negative and can be infinite or NaN.
\<close>

record track_point =
  tp_flight_id :: val
  tp_latitude :: real
  tp_longitude :: real
  tp_altitude :: pyfloat
  tp_speed :: pyfloat
  tp_heading :: real
  tp_status :: val
  tp_timestamp :: int
  tp_received_at :: int
  tp_others :: doc

text \<open>
  A document of \<^verbatim>\<open>flights\<close>: the nine keys every \<^verbatim>\<open>flight_update\<close> sets, and the keys
  that are set only under a condition, \<open>None\<close> when the document does not have the key.
\<close>

record flight_state =
  fs_flight_id :: val
  fs_latitude :: real
  fs_longitude :: real
  fs_altitude :: pyfloat
  fs_speed :: pyfloat
  fs_heading :: real
  fs_status :: val
  fs_last_updated :: int
  fs_received_at :: int
  fs_aircraft_type :: "val option"
  fs_airline :: "val option"
  fs_departure :: "val option"
  fs_arrival :: "val option"
  fs_route :: "val option"
  fs_destination :: "val option"
  fs_source :: "val option"
  fs_route_progress :: "real option"
  fs_ready_for_completion :: "bool option"

record route_info =
  rt_source :: val
  rt_destination :: val
  rt_final_progress :: real

record flight_summary =
  sm_aircraft_type :: val
  sm_airline :: val
  sm_departure_airport :: val
  sm_arrival_airport :: val
  sm_total_distance_km :: real

record log_entry =
  log_flight_id :: val
  log_path :: "track_point list"
  log_flight_details :: "flight_state option"
  log_completed_at :: int
  log_total_tracking_points :: nat
  log_departure_time :: "int option"
  log_arrival_time :: "int option"
  log_total_duration_minutes :: real
  log_auto_completed :: "bool option"
  log_route :: "route_info option"
  log_flight_summary :: "flight_summary option"

record store =
  flights :: "flight_state list"
  tracking :: "track_point list"
  logs :: "log_entry list"

definition empty_store :: store where
  "empty_store = \<lparr>flights = [], tracking = [], logs = []\<rparr>"

text \<open>\<^verbatim>\<open>tracking.find({"flight_id": fid}).sort("timestamp", 1)\<close>, ties in insertion order.\<close>

definition find_tracking :: "val \<Rightarrow> track_point list \<Rightarrow> track_point list" where
  "find_tracking fid ts = sort_key tp_timestamp (filter (\<lambda>t. tp_flight_id t = fid) ts)"

text \<open>\<^verbatim>\<open>tracking.delete_many({"flight_id": fid})\<close>\<close>

definition delete_many :: "val \<Rightarrow> track_point list \<Rightarrow> track_point list" where
  "delete_many fid ts = filter (\<lambda>t. tp_flight_id t \<noteq> fid) ts"

text \<open>\<^verbatim>\<open>flights.find_one({"flight_id": fid})\<close>: the first matching document.\<close>

definition find_one :: "val \<Rightarrow> flight_state list \<Rightarrow> flight_state option" where
  "find_one fid fs = find (\<lambda>f. fs_flight_id f = fid) fs"

text \<open>\<^verbatim>\<open>flights.delete_one({"flight_id": fid})\<close>: removes the first matching document.\<close>

fun delete_one :: "val \<Rightarrow> flight_state list \<Rightarrow> flight_state list" where
  "delete_one fid [] = []"
| "delete_one fid (f # fs) = (if fs_flight_id f = fid then fs else f # delete_one fid fs)"

text \<open>
  \<^verbatim>\<open>{"$set": flight_update}\<close> on an existing document: a key of the update replaces the
  document's value, a key the update does not have keeps it.
\<close>

definition set_opt :: "'a option \<Rightarrow> 'a option \<Rightarrow> 'a option" where
  "set_opt new old = (case new of Some v \<Rightarrow> Some v | None \<Rightarrow> old)"

definition set_fields :: "flight_state \<Rightarrow> flight_state \<Rightarrow> flight_state" where
  "set_fields old upd =
     upd\<lparr>fs_aircraft_type := set_opt (fs_aircraft_type upd) (fs_aircraft_type old),
         fs_airline := set_opt (fs_airline upd) (fs_airline old),
         fs_departure := set_opt (fs_departure upd) (fs_departure old),
         fs_arrival := set_opt (fs_arrival upd) (fs_arrival old),
         fs_route := set_opt (fs_route upd) (fs_route old),
         fs_destination := set_opt (fs_destination upd) (fs_destination old),
         fs_source := set_opt (fs_source upd) (fs_source old),
         fs_route_progress := set_opt (fs_route_progress upd) (fs_route_progress old),
         fs_ready_for_completion :=
           set_opt (fs_ready_for_completion upd) (fs_ready_for_completion old)\<rparr>"

text \<open>
  \<^verbatim>\<open>flights.update_one({"flight_id": fid}, {"$set": flight_update}, upsert=True)\<close>: the
  first matching document is updated; without a match the update becomes a new document.
\<close>

fun update_one :: "val \<Rightarrow> flight_state \<Rightarrow> flight_state list \<Rightarrow> flight_state list" where
  "update_one fid upd [] = [upd]"
| "update_one fid upd (f # fs) =
     (if fs_flight_id f = fid then set_fields f upd # fs else f # update_one fid upd fs)"

section \<open>Ingesting a position report\<close>

text \<open>
  What the handlers return: an error response with its HTTP status and message, a success
  (for an archival with the number of points and the duration, for a sweep with the
  count), or an exception no handler catches, which the framework answers with status 500.
\<close>

datatype response =
    Err nat string
  | Ok
  | Completed nat real
  | Swept nat
  | Unhandled py_error

definition required_fields :: "string list" where
  "required_fields = [''flight_id'', ''latitude'', ''longitude'', ''altitude'', ''speed'',
                      ''heading'', ''status'', ''timestamp'']"

definition optional_fields :: "string list" where
  "optional_fields = [''aircraft_type'', ''airline'', ''departure'', ''arrival'', ''route'',
                      ''destination'', ''source'']"

text \<open>\<^verbatim>\<open>data.get(k)\<close>\<close>

definition dict_get :: "doc \<Rightarrow> string \<Rightarrow> val" where
  "dict_get d k = (case d k of Some v \<Rightarrow> v | None \<Rightarrow> VNull)"

text \<open>
  \<^verbatim>\<open>float(data[k])\<close>. A number converts to the nearest double; an integer that rounds beyond
  the largest double (magnitude at least \<open>2 ^ 1024 - 2 ^ 970\<close>) raises \<^verbatim>\<open>OverflowError\<close>. A
  boolean converts to 0 or 1, a string is parsed, and \<^verbatim>\<open>None\<close> raises \<^verbatim>\<open>TypeError\<close>.
\<close>

definition py_float :: "pylib \<Rightarrow> val option \<Rightarrow> py_error + pyfloat" where
  "py_float P v =
     (case v of
        None \<Rightarrow> Inl KeyError
      | Some (VNum r) \<Rightarrow>
          if \<bar>r\<bar> < 2 ^ 1024 - 2 ^ 970 then Inr (Fin (fl r)) else Inl OverflowError
      | Some VPosInf \<Rightarrow> Inr PosInf
      | Some VNegInf \<Rightarrow> Inr NegInf
      | Some VNaN \<Rightarrow> Inr NaN
      | Some (VBool b) \<Rightarrow> Inr (Fin (if b then 1 else 0))
      | Some (VStr s) \<Rightarrow> (case float_of_str P s of Some x \<Rightarrow> Inr x | None \<Rightarrow> Inl ValueError)
      | Some VNull \<Rightarrow> Inl TypeError
      | Some (VTime t) \<Rightarrow> Inl TypeError)"

text \<open>
  The comparisons of the range checks on a float: \<^verbatim>\<open>lo <= x <= hi\<close>, giving the finite value
  when it holds, and \<^verbatim>\<open>x < 0\<close>. Every comparison with NaN is false.
\<close>

definition in_range :: "real \<Rightarrow> real \<Rightarrow> pyfloat \<Rightarrow> real option" where
  "in_range lo hi x = (case x of Fin r \<Rightarrow> if lo \<le> r \<and> r \<le> hi then Some r else None
                                | _ \<Rightarrow> None)"

definition negative :: "pyfloat \<Rightarrow> bool" where
  "negative x = (case x of Fin r \<Rightarrow> r < 0 | NegInf \<Rightarrow> True | _ \<Rightarrow> False)"

text \<open>\<^verbatim>\<open>s.replace('Z', '+00:00')\<close>\<close>

definition replace_Z :: "string \<Rightarrow> string" where
  "replace_Z s = concat (map (\<lambda>c. if c = CHR ''Z'' then ''+00:00'' else [c]) s)"

record converted =
  c_latitude :: pyfloat
  c_longitude :: pyfloat
  c_altitude :: pyfloat
  c_speed :: pyfloat
  c_heading :: pyfloat

record validated =
  v_latitude :: real
  v_longitude :: real
  v_altitude :: pyfloat
  v_speed :: pyfloat
  v_heading :: real
  v_timestamp :: int

text \<open>
  Lines 99 to 103 of \<^verbatim>\<open>update_flight\<close>: the five conversions in order; the first exception
  ends them.
\<close>

definition convert_numeric :: "pylib \<Rightarrow> doc \<Rightarrow> py_error + converted" where
  "convert_numeric P data =
     (case py_float P (data ''latitude'') of Inl e \<Rightarrow> Inl e | Inr latitude \<Rightarrow>
     (case py_float P (data ''longitude'') of Inl e \<Rightarrow> Inl e | Inr longitude \<Rightarrow>
     (case py_float P (data ''altitude'') of Inl e \<Rightarrow> Inl e | Inr altitude \<Rightarrow>
     (case py_float P (data ''speed'') of Inl e \<Rightarrow> Inl e | Inr speed \<Rightarrow>
     (case py_float P (data ''heading'') of Inl e \<Rightarrow> Inl e | Inr heading \<Rightarrow>
        Inr \<lparr>c_latitude = latitude, c_longitude = longitude, c_altitude = altitude,
             c_speed = speed, c_heading = heading\<rparr>)))))"

text \<open>
  Lines 106 to 115: the range checks in order, with the message of the first that fails;
  otherwise the three values that are now known to be finite.
\<close>

definition check_ranges :: "converted \<Rightarrow> string + real \<times> real \<times> real" where
  "check_ranges c =
     (case in_range (- 90) 90 (c_latitude c) of
        None \<Rightarrow> Inl ''Latitude must be between -90 and 90''
      | Some lat \<Rightarrow>
     (case in_range (- 180) 180 (c_longitude c) of
        None \<Rightarrow> Inl ''Longitude must be between -180 and 180''
      | Some lon \<Rightarrow>
     (if negative (c_altitude c) then Inl ''Altitude must be positive''
      else if negative (c_speed c) then Inl ''Speed must be positive''
      else (case in_range 0 360 (c_heading c) of
              None \<Rightarrow> Inl ''Heading must be between 0 and 360''
            | Some hdg \<Rightarrow> Inr (lat, lon, hdg)))))"

text \<open>
  The \<^verbatim>\<open>except (ValueError, TypeError)\<close> clause around the conversions: any other exception
  leaves the handler.
\<close>

definition conversion_failure :: "py_error \<Rightarrow> response" where
  "conversion_failure e =
     (if e = ValueError \<or> e = TypeError then Err 400 ''Invalid data types for numeric fields''
      else Unhandled e)"

text \<open>
  Lines 92 to 124 of \<^verbatim>\<open>update_flight\<close>: the presence check, the conversions, the range
  checks and the timestamp, in the order of the source. A timestamp that is not a string
  has no \<^verbatim>\<open>replace\<close> method: the \<^verbatim>\<open>AttributeError\<close> is not caught.
\<close>

definition validate :: "pylib \<Rightarrow> doc \<Rightarrow> response + validated" where
  "validate P data =
     (if \<not> list_all (\<lambda>field. data field \<noteq> None) required_fields
      then Inl (Err 400 ''Missing one or more required fields'')
      else (case convert_numeric P data of
              Inl e \<Rightarrow> Inl (conversion_failure e)
            | Inr c \<Rightarrow>
                (case check_ranges c of
                   Inl msg \<Rightarrow> Inl (Err 400 msg)
                 | Inr (lat, lon, hdg) \<Rightarrow>
                     (case data ''timestamp'' of
                        Some (VStr s) \<Rightarrow>
                          (case fromisoformat P (replace_Z s) of
                             Some t \<Rightarrow> Inr \<lparr>v_latitude = lat, v_longitude = lon,
                                            v_altitude = c_altitude c, v_speed = c_speed c,
                                            v_heading = hdg, v_timestamp = t\<rparr>
                           | None \<Rightarrow> Inl (Err 400 ''Invalid timestamp format. Use ISO format''))
                      | _ \<Rightarrow> Inl (Unhandled AttributeError)))))"

text \<open>The document appended to the history (\<^verbatim>\<open>database.tracking.insert_one(data)\<close>).\<close>

definition track_point_of :: "int \<Rightarrow> doc \<Rightarrow> validated \<Rightarrow> track_point" where
  "track_point_of now data v =
     \<lparr>tp_flight_id = dict_get data ''flight_id'',
      tp_latitude = v_latitude v,
      tp_longitude = v_longitude v,
      tp_altitude = v_altitude v,
      tp_speed = v_speed v,
      tp_heading = v_heading v,
      tp_status = dict_get data ''status'',
      tp_timestamp = v_timestamp v,
      tp_received_at = now,
      tp_others = data |` (- (set required_fields \<union> {''received_at''}))\<rparr>"

text \<open>
  The dictionary \<^verbatim>\<open>flight_update\<close> (lines 133 to 162): the nine fixed keys, the optional
  keys the report has, and, when the report has both \<^verbatim>\<open>source\<close> and \<^verbatim>\<open>destination\<close>, the
  route progress with the landing override. An exception of the progress computation
  leaves the handler.
\<close>

definition flight_update_of ::
  "pylib \<Rightarrow> int \<Rightarrow> doc \<Rightarrow> validated \<Rightarrow> py_error + flight_state" where
  "flight_update_of P now data v =
     (let flight_update =
            \<lparr>fs_flight_id = dict_get data ''flight_id'',
             fs_latitude = v_latitude v,
             fs_longitude = v_longitude v,
             fs_altitude = v_altitude v,
             fs_speed = v_speed v,
             fs_heading = v_heading v,
             fs_status = dict_get data ''status'',
             fs_last_updated = v_timestamp v,
             fs_received_at = now,
             fs_aircraft_type = data ''aircraft_type'',
             fs_airline = data ''airline'',
             fs_departure = data ''departure'',
             fs_arrival = data ''arrival'',
             fs_route = data ''route'',
             fs_destination = data ''destination'',
             fs_source = data ''source'',
             fs_route_progress = None,
             fs_ready_for_completion = None\<rparr>
      in if data ''source'' \<noteq> None \<and> data ''destination'' \<noteq> None
         then (case calculate_route_progress P (v_latitude v) (v_longitude v)
                      (dict_get data ''source'') (dict_get data ''destination'') of
                 Inl e \<Rightarrow> Inl e
               | Inr route_progress \<Rightarrow>
                   (let flight_update = flight_update\<lparr>fs_route_progress := Some route_progress\<rparr>
                    in if 95 \<le> route_progress
                       then Inr (flight_update\<lparr>fs_status := VStr ''landed'',
                                               fs_ready_for_completion := Some True\<rparr>)
                       else Inr flight_update))
         else Inr flight_update)"

text \<open>
  \<open>now\<close> is the server clock read by \<^verbatim>\<open>datetime.now()\<close>. The history document is inserted
  before \<^verbatim>\<open>flight_update\<close> is built, so it stays when the progress computation raises.
\<close>

definition update_flight :: "pylib \<Rightarrow> int \<Rightarrow> store \<Rightarrow> doc \<Rightarrow> response \<times> store" where
  "update_flight P now st data =
     (case validate P data of
        Inl r \<Rightarrow> (r, st)
      | Inr v \<Rightarrow>
          (let st = st\<lparr>tracking := tracking st @ [track_point_of now data v]\<rparr>
           in case flight_update_of P now data v of
                Inl e \<Rightarrow> (Unhandled e, st)
              | Inr flight_update \<Rightarrow>
                  (Ok, st\<lparr>flights := update_one (dict_get data ''flight_id'')
                                        flight_update (flights st)\<rparr>)))"

section \<open>Archiving\<close>

text \<open>
  \<^verbatim>\<open>(end_time - start_time).total_seconds() / 60\<close>, instants in milliseconds:
  \<^verbatim>\<open>total_seconds\<close> divides the whole number of microseconds by \<open>10 ^ 6\<close>.
\<close>

definition minutes_between :: "int \<Rightarrow> int \<Rightarrow> real" where
  "minutes_between start_time end_time = fdiv (fdiv (of_int (end_time - start_time)) 1000) 60"

definition complete_flight :: "int \<Rightarrow> store \<Rightarrow> string \<Rightarrow> response \<times> store" where
  "complete_flight now st flight_id =
     (let path_data = find_tracking (VStr flight_id) (tracking st)
      in case path_data of
           [] \<Rightarrow> (Err 404 ''No data for this flight'', st)
         | p # ps \<Rightarrow>
             (let flight_details = find_one (VStr flight_id) (flights st);
                  duration = (if 1 < length path_data
                              then py_round2 (minutes_between (tp_timestamp p)
                                                (tp_timestamp (last path_data)))
                              else 0);
                  log_entry =
                    \<lparr>log_flight_id = VStr flight_id,
                     log_path = path_data,
                     log_flight_details = flight_details,
                     log_completed_at = now,
                     log_total_tracking_points = length path_data,
                     log_departure_time = Some (tp_timestamp p),
                     log_arrival_time = Some (tp_timestamp (last path_data)),
                     log_total_duration_minutes = duration,
                     log_auto_completed = None,
                     log_route = None,
                     log_flight_summary = None\<rparr>
              in (Completed (length path_data) duration,
                  st\<lparr>logs := logs st @ [log_entry],
                     tracking := delete_many (VStr flight_id) (tracking st),
                     flights := delete_one (VStr flight_id) (flights st)\<rparr>)))"

text \<open>
  The loop of \<^verbatim>\<open>calculate_flight_distance\<close> over consecutive points, with the running sum.
\<close>

fun path_length :: "pylib \<Rightarrow> real \<Rightarrow> track_point list \<Rightarrow> py_error + real" where
  "path_length P total_distance (prev_point # curr_point # rest) =
     (case calculate_distance P (tp_latitude prev_point) (tp_longitude prev_point)
             (tp_latitude curr_point) (tp_longitude curr_point) of
        Inl e \<Rightarrow> Inl e
      | Inr distance \<Rightarrow> path_length P (fadd total_distance distance) (curr_point # rest))"
| "path_length P total_distance _ = Inr total_distance"

definition calculate_flight_distance :: "pylib \<Rightarrow> track_point list \<Rightarrow> py_error + real" where
  "calculate_flight_distance P path_data =
     (if length path_data < 2 then Inr 0
      else case path_length P 0 path_data of
             Inl e \<Rightarrow> Inl e
           | Inr total_distance \<Rightarrow> Inr (py_round2 total_distance))"

text \<open>
  The query of the sweep: \<^verbatim>\<open>status\<close> is \<^verbatim>\<open>"landed"\<close>, or \<^verbatim>\<open>ready_for_completion\<close> is true, or
  \<^verbatim>\<open>route_progress\<close> is at least 95.
\<close>

definition landed_query :: "flight_state \<Rightarrow> bool" where
  "landed_query f =
     (fs_status f = VStr ''landed''
      \<or> fs_ready_for_completion f = Some True
      \<or> (case fs_route_progress f of Some p \<Rightarrow> 95 \<le> p | None \<Rightarrow> False))"

definition opt_or :: "val option \<Rightarrow> val \<Rightarrow> val" where
  "opt_or v d = (case v of Some x \<Rightarrow> x | None \<Rightarrow> d)"

text \<open>
  The body of the loop over \<^verbatim>\<open>landed_flights\<close>, on the store and the running count. The
  log entry is built, with the distance flown, before anything is written.
\<close>

definition sweep_step ::
  "pylib \<Rightarrow> int \<Rightarrow> flight_state \<Rightarrow> store \<times> nat \<Rightarrow> py_error + store \<times> nat" where
  "sweep_step P now flight sc =
     (let st = fst sc; completed_count = snd sc;
          flight_id = fs_flight_id flight;
          path_data = find_tracking flight_id (tracking st)
      in case path_data of
           [] \<Rightarrow> Inr (st, completed_count)
         | p # ps \<Rightarrow>
             (let flight_details = find_one flight_id (flights st);
                  total_duration = (if 1 < length path_data
                                    then minutes_between (tp_timestamp p)
                                           (tp_timestamp (last path_data))
                                    else 0)
              in case calculate_flight_distance P path_data of
                   Inl e \<Rightarrow> Inl e
                 | Inr total_distance_km \<Rightarrow>
                     (let log_entry =
                        \<lparr>log_flight_id = flight_id,
                         log_path = path_data,
                         log_flight_details = flight_details,
                         log_completed_at = now,
                         log_total_tracking_points = length path_data,
                         log_departure_time = Some (tp_timestamp p),
                         log_arrival_time = Some (tp_timestamp (last path_data)),
                         log_total_duration_minutes = py_round2 total_duration,
                         log_auto_completed = Some True,
                         log_route = Some
                           \<lparr>rt_source = opt_or (fs_source flight) (VStr ''Unknown''),
                            rt_destination = opt_or (fs_destination flight) (VStr ''Unknown''),
                            rt_final_progress =
                              (case fs_route_progress flight of Some p \<Rightarrow> p | None \<Rightarrow> 0)\<rparr>,
                         log_flight_summary = Some
                           \<lparr>sm_aircraft_type = opt_or (fs_aircraft_type flight) (VStr ''Unknown''),
                            sm_airline = opt_or (fs_airline flight) (VStr ''Unknown''),
                            sm_departure_airport = opt_or (fs_source flight) (VStr ''Unknown''),
                            sm_arrival_airport =
                              opt_or (fs_destination flight) (VStr ''Unknown''),
                            sm_total_distance_km = total_distance_km\<rparr>\<rparr>
                      in Inr (st\<lparr>logs := logs st @ [log_entry],
                                 tracking := delete_many flight_id (tracking st),
                                 flights := delete_one flight_id (flights st)\<rparr>,
                              completed_count + 1))))"

text \<open>
  The loop: an exception in the body ends the request, and what earlier iterations wrote
  stays written.
\<close>

fun sweep_loop ::
  "pylib \<Rightarrow> int \<Rightarrow> flight_state list \<Rightarrow> store \<times> nat \<Rightarrow> py_error option \<times> store \<times> nat" where
  "sweep_loop P now [] sc = (None, sc)"
| "sweep_loop P now (flight # rest) sc =
     (case sweep_step P now flight sc of
        Inl e \<Rightarrow> (Some e, sc)
      | Inr sc' \<Rightarrow> sweep_loop P now rest sc')"

definition auto_complete_landed_flights :: "pylib \<Rightarrow> int \<Rightarrow> store \<Rightarrow> response \<times> store" where
  "auto_complete_landed_flights P now st =
     (let landed_flights = filter landed_query (flights st);
          r = sweep_loop P now landed_flights (st, 0)
      in case fst r of
           Some e \<Rightarrow> (Unhandled e, fst (snd r))
         | None \<Rightarrow> (Swept (snd (snd r)), fst (snd r)))"

section \<open>Runs of the service\<close>

text \<open>
  A request with the clock reading at which it is handled. A run handles a list of
  requests in order, starting from some store.
\<close>

datatype request = Update doc | Complete string | AutoComplete

definition handle :: "pylib \<Rightarrow> int \<times> request \<Rightarrow> store \<Rightarrow> response \<times> store" where
  "handle P tr st =
     (case snd tr of
        Update data \<Rightarrow> update_flight P (fst tr) st data
      | Complete flight_id \<Rightarrow> complete_flight (fst tr) st flight_id
      | AutoComplete \<Rightarrow> auto_complete_landed_flights P (fst tr) st)"

fun run :: "pylib \<Rightarrow> (int \<times> request) list \<Rightarrow> store \<Rightarrow> store" where
  "run P [] st = st"
| "run P (tr # trs) st = run P trs (snd (handle P tr st))"

text \<open>The flight ids of the reports a run accepted.\<close>

fun reported_ids :: "pylib \<Rightarrow> (int \<times> request) list \<Rightarrow> store \<Rightarrow> val set" where
  "reported_ids P [] st = {}"
| "reported_ids P (tr # trs) st =
     (case snd tr of
        Update data \<Rightarrow>
          (if fst (update_flight P (fst tr) st data) = Ok
           then {dict_get data ''flight_id''} else {})
      | _ \<Rightarrow> {})
     \<union> reported_ids P trs (snd (handle P tr st))"

definition active_ids :: "store \<Rightarrow> val set" where
  "active_ids st = set (map fs_flight_id (flights st))"

definition archived_ids :: "store \<Rightarrow> val set" where
  "archived_ids st = set (map log_flight_id (logs st))"

definition tracked_ids :: "store \<Rightarrow> val set" where
  "tracked_ids st = set (map tp_flight_id (tracking st))"

text \<open>
  The stores that the invariants below are about: no two active documents with the same
  flight id, and a history document for every active flight.
\<close>

definition wf_store :: "store \<Rightarrow> bool" where
  "wf_store st \<longleftrightarrow> distinct (map fs_flight_id (flights st)) \<and> active_ids st \<subseteq> tracked_ids st"

section \<open>Statements of the specification\<close>


text \<open>
  A message names a field when it contains the field's name, letter case ignored. The
  numeric fields are the five that \<^verbatim>\<open>update_flight\<close> converts with \<^verbatim>\<open>float\<close>. A converted
  value is out of range when it is outside \<open>[-90, 90]\<close> for the latitude, outside
  \<open>[-180, 180]\<close> for the longitude, below 0 for the altitude and the speed, outside
  \<open>[0, 360]\<close> for the heading.
\<close>

definition to_lower :: "char \<Rightarrow> char" where
  "to_lower c = (if (65::nat) \<le> of_char c \<and> of_char c \<le> (90::nat)
                 then char_of (of_char c + (32::nat)) else c)"

definition mentions :: "string \<Rightarrow> string \<Rightarrow> bool" where
  "mentions msg field = sublist (map to_lower field) (map to_lower msg)"

definition numeric_fields :: "string list" where
  "numeric_fields = [''latitude'', ''longitude'', ''altitude'', ''speed'', ''heading'']"


text \<open>
  The real-valued two-argument arctangent, and a library whose \<^verbatim>\<open>math\<close> functions are
  correctly rounded.
\<close>

definition atan2 :: "real \<Rightarrow> real \<Rightarrow> real" where
  "atan2 y x =
     (if 0 < x then arctan (y / x)
      else if x < 0 then (if 0 \<le> y then arctan (y / x) + pi else arctan (y / x) - pi)
      else if 0 < y then pi / 2
      else if y < 0 then - (pi / 2)
      else 0)"

section \<open>Sample inputs\<close>

text \<open>
  Concrete inputs on which the theorems below are instantiated: a library whose timestamp
  parser accepts one string and whose \<^verbatim>\<open>math\<close> functions are correctly rounded, a report sent
  from the position of LAX on the route from JFK to LAX, the documents that report produces
  in an empty store, and a later report of the same flight without route fields.
\<close>

definition sample_lib :: pylib where
  "sample_lib = \<lparr>float_of_str = (\<lambda>s. None),
                 fromisoformat = (\<lambda>s. if s = ''2024-01-01T00:00:00+00:00''
                                        then Some 1704067200000 else None),
                 m_sin = (\<lambda>x. fl (sin x)),
                 m_cos = (\<lambda>x. fl (cos x)),
                 m_atan2 = (\<lambda>y x. fl (atan2 y x))\<rparr>"


definition sample_point :: track_point where
  "sample_point =
     \<lparr>tp_flight_id = VStr ''TST1'',
      tp_latitude = fl (339416 / 10000),
      tp_longitude = fl (- 1184085 / 10000),
      tp_altitude = Fin 0, tp_speed = Fin 0, tp_heading = 270,
      tp_status = VStr ''en-route'',
      tp_timestamp = 1704067200000,
      tp_received_at = 1704067205000,
      tp_others = [''source'' \<mapsto> VStr ''JFK'', ''destination'' \<mapsto> VStr ''LAX'']\<rparr>"

definition sample_state :: flight_state where
  "sample_state =
     \<lparr>fs_flight_id = VStr ''TST1'',
      fs_latitude = fl (339416 / 10000),
      fs_longitude = fl (- 1184085 / 10000),
      fs_altitude = Fin 0, fs_speed = Fin 0, fs_heading = 270,
      fs_status = VStr ''landed'',
      fs_last_updated = 1704067200000,
      fs_received_at = 1704067205000,
      fs_aircraft_type = None, fs_airline = None, fs_departure = None, fs_arrival = None,
      fs_route = None,
      fs_destination = Some (VStr ''LAX''),
      fs_source = Some (VStr ''JFK''),
      fs_route_progress = Some 100,
      fs_ready_for_completion = Some True\<rparr>"

definition sample_report_cruise :: doc where
  "sample_report_cruise =
     [''flight_id'' \<mapsto> VStr ''TST1'',
      ''latitude'' \<mapsto> VNum 39,
      ''longitude'' \<mapsto> VNum (- 85),
      ''altitude'' \<mapsto> VNum 38000,
      ''speed'' \<mapsto> VNum 520,
      ''heading'' \<mapsto> VNum 270,
      ''status'' \<mapsto> VStr ''en-route'',
      ''timestamp'' \<mapsto> VStr ''2024-01-01T00:00:00Z'']"



section \<open>Rounding to binary64\<close>

lemma pow2_pos: "0 < pow2 k"
  by (simp add: pow2_def)

lemma pow2_powi: "pow2 k = 2 powi k"
  by (simp add: pow2_def power_int_def field_simps)

lemma pow2_add: "pow2 (a + b) = pow2 a * pow2 b"
  by (simp add: pow2_powi power_int_add)

lemma round_half_even_err: "\<bar>of_int (round_half_even y) - y\<bar> \<le> 1 / 2"
  unfolding round_half_even_def Let_def by (auto simp: abs_le_iff; linarith)

lemma expo_lower: assumes "x \<noteq> 0" shows "pow2 (expo x) \<le> \<bar>x\<bar>"
proof (cases "1 \<le> \<bar>x\<bar>")
  case True
  define n where "n = \<lfloor>\<bar>x\<bar>\<rfloor>"
  have n: "0 < n" using True by (simp add: n_def)
  from bitlen_bounds[OF n] have "2 ^ nat (bitlen n - 1) \<le> n" by simp
  then have "(2::real) ^ nat (bitlen n - 1) \<le> of_int n"
    by (metis of_int_le_iff of_int_numeral of_int_power)
  also have "\<dots> \<le> \<bar>x\<bar>" by (simp add: n_def)
  finally have "2 ^ nat (bitlen n - 1) \<le> \<bar>x\<bar>" .
  moreover have "1 \<le> bitlen n" using n by (simp add: bitlen_alt_def)
  ultimately show ?thesis using True by (simp add: expo_def pow2_def n_def)
next
  case False
  define y where "y = 1 / \<bar>x\<bar>"
  define n where "n = \<lfloor>y\<rfloor>"
  have y: "1 < y" using False assms by (simp add: y_def)
  have n: "0 < n" using y by (simp add: n_def)
  from bitlen_bounds[OF n] have "n < 2 ^ nat (bitlen n)" by simp
  then have "y < 2 ^ nat (bitlen n)"
    unfolding n_def by (metis floor_less_iff of_int_numeral of_int_power)
  then have "1 / 2 ^ nat (bitlen n) \<le> \<bar>x\<bar>"
    using assms by (simp add: y_def field_simps)
  moreover have "1 \<le> bitlen n" using n by (simp add: bitlen_alt_def)
  ultimately show ?thesis using False by (simp add: expo_def pow2_def n_def y_def)
qed

lemma fl_err: "\<bar>fl x - x\<bar> \<le> \<bar>x\<bar> / 2 ^ 53"
proof (cases "x = 0")
  case True then show ?thesis by (simp add: fl_def)
next
  case False
  define k where "k = 52 - expo x"
  define P where "P = pow2 k"
  define m where "m = round_half_even (x * P)"
  have P: "0 < P" by (simp add: P_def pow2_pos)
  have flx: "fl x = of_int m / P" using False by (simp add: fl_def Let_def k_def P_def m_def)
  have "pow2 (expo x) * P = pow2 52" unfolding P_def k_def pow2_add[symmetric] by simp
  then have e: "pow2 (expo x) * P = 2 ^ 52" by (simp add: pow2_def)
  have "2 ^ 52 \<le> \<bar>x\<bar> * P"
    using mult_right_mono[OF expo_lower[OF False], of P] P e by simp
  then have lo: "1 / (2 * P) \<le> \<bar>x\<bar> / 2 ^ 53" using P by (simp add: field_simps)
  have "\<bar>of_int m - x * P\<bar> \<le> 1 / 2" unfolding m_def by (rule round_half_even_err)
  then have "\<bar>of_int m - x * P\<bar> / P \<le> (1 / 2) / P" using P by (intro divide_right_mono) auto
  then have "\<bar>of_int m - x * P\<bar> / P \<le> 1 / (2 * P)" by simp
  moreover have "\<bar>fl x - x\<bar> = \<bar>of_int m - x * P\<bar> / P"
  proof -
    have "fl x - x = (of_int m - x * P) / P" using P by (simp add: flx field_simps)
    then show ?thesis using P by (simp add: abs_divide)
  qed
  ultimately have "\<bar>fl x - x\<bar> \<le> 1 / (2 * P)" by (simp only:)
  then show ?thesis using lo by (rule order_trans)
qed

lemma fl_0: "fl 0 = 0" by (simp add: fl_def)
lemma fl_1: "fl 1 = 1" by code_simp
lemma fl_100: "fl 100 = 100" by code_simp

lemma round_half_even_of_int [simp]: "round_half_even (of_int n) = n"
  by (simp add: round_half_even_def)

lemma fl_abs_le:
  assumes "\<bar>x\<bar> \<le> b" shows "\<bar>fl x\<bar> \<le> b + b / 2 ^ 53"
proof -
  have "\<bar>fl x - x\<bar> \<le> \<bar>x\<bar> / 2 ^ 53" by (rule fl_err)
  also have "\<dots> \<le> b / 2 ^ 53" using assms by (simp add: divide_right_mono)
  finally show ?thesis using assms by linarith
qed

lemma pow2_mono_rev: "pow2 a \<le> pow2 b \<Longrightarrow> a \<le> b"
proof (rule ccontr)
  assume le: "pow2 a \<le> pow2 b" and "\<not> a \<le> b"
  then have "b < a" by simp
  then have "(2::real) powi b < 2 powi a" by (intro power_int_strict_increasing) auto
  with le show False by (simp add: pow2_powi)
qed

lemma expo_upper: assumes "x \<noteq> 0" shows "\<bar>x\<bar> \<le> pow2 (expo x + 1)"
proof (cases "1 \<le> \<bar>x\<bar>")
  case True
  define n where "n = \<lfloor>\<bar>x\<bar>\<rfloor>"
  have n: "0 < n" using True by (simp add: n_def)
  from bitlen_bounds[OF n] have "n + 1 \<le> 2 ^ nat (bitlen n)" by simp
  then have "real_of_int (n + 1) \<le> 2 ^ nat (bitlen n)"
    by (metis of_int_le_iff of_int_numeral of_int_power)
  moreover have "\<bar>x\<bar> \<le> real_of_int (n + 1)" unfolding n_def by linarith
  ultimately have "\<bar>x\<bar> \<le> 2 ^ nat (bitlen n)" by linarith
  moreover have "0 \<le> bitlen n" by (rule bitlen_nonneg)
  ultimately show ?thesis using True by (simp add: expo_def pow2_def n_def)
next
  case False
  define y where "y = 1 / \<bar>x\<bar>"
  define n where "n = \<lfloor>y\<rfloor>"
  have y: "1 < y" using False assms by (simp add: y_def)
  have n: "0 < n" using y by (simp add: n_def)
  have b1: "1 \<le> bitlen n" using n by (simp add: bitlen_alt_def)
  from bitlen_bounds[OF n] have "2 ^ nat (bitlen n - 1) \<le> n" by simp
  then have "(2::real) ^ nat (bitlen n - 1) \<le> of_int n"
    by (metis of_int_le_iff of_int_numeral of_int_power)
  also have "\<dots> \<le> y" by (simp add: n_def)
  finally have "2 ^ nat (bitlen n - 1) \<le> 1 / \<bar>x\<bar>" by (simp add: y_def)
  then have le: "\<bar>x\<bar> \<le> 1 / 2 ^ nat (bitlen n - 1)"
    using assms by (simp add: field_simps)
  have "pow2 (expo x + 1) = 1 / 2 ^ nat (bitlen n - 1)"
  proof (cases "bitlen n = 1")
    case True
    then show ?thesis using False by (simp add: expo_def pow2_def n_def y_def)
  next
    case False
    with b1 have "1 < bitlen n" by simp
    then show ?thesis using \<open>\<not> 1 \<le> \<bar>x\<bar>\<close>
      by (simp add: expo_def pow2_def n_def y_def)
  qed
  with le show ?thesis by simp
qed

lemma round_half_even_ge: "real_of_int N \<le> z \<Longrightarrow> N \<le> round_half_even z"
  unfolding round_half_even_def Let_def by (auto simp: le_floor_iff; linarith)

lemma round_half_even_le: "z \<le> real_of_int N \<Longrightarrow> round_half_even z \<le> N"
proof -
  assume a: "z \<le> real_of_int N"
  have f: "\<lfloor>z\<rfloor> \<le> N" using a by (simp add: floor_le_iff)
  show ?thesis
  proof (cases "\<lfloor>z\<rfloor> = N")
    case True
    then have "z - of_int \<lfloor>z\<rfloor> \<le> 0" using a by simp
    then show ?thesis using True by (simp add: round_half_even_def Let_def)
  next
    case False
    with f have "\<lfloor>z\<rfloor> + 1 \<le> N" by simp
    then show ?thesis unfolding round_half_even_def Let_def by auto
  qed
qed

lemma pow2_nonneg_int: "0 \<le> k \<Longrightarrow> pow2 k = of_int (2 ^ nat k)"
  by (simp add: pow2_def)

lemma fl_idem: "fl (fl x) = fl x"
proof (cases "x = 0")
  case True
  then show ?thesis by (simp add: fl_def)
next
  case False
  define e where "e = expo x"
  define P where "P = pow2 (52 - e)"
  define m where "m = round_half_even (x * P)"
  define y where "y = fl x"
  have P: "0 < P" by (simp add: P_def pow2_pos)
  have y: "y = of_int m / P"
    using False by (simp add: y_def fl_def Let_def e_def P_def m_def)
  have eP: "pow2 e * P = 2 ^ 52"
    unfolding P_def pow2_add[symmetric] by (simp add: pow2_def)
  have eP1: "pow2 (e + 1) * P = 2 ^ 53"
    unfolding P_def pow2_add[symmetric] by (simp add: pow2_def)
  have "pow2 e * P \<le> \<bar>x\<bar> * P"
    unfolding e_def using expo_lower[OF False] P by (intro mult_right_mono) auto
  then have lo: "2 ^ 52 \<le> \<bar>x\<bar> * P" unfolding eP .
  have "\<bar>x\<bar> * P \<le> pow2 (e + 1) * P"
    unfolding e_def using expo_upper[OF False] P by (intro mult_right_mono) auto
  then have hi: "\<bar>x\<bar> * P \<le> 2 ^ 53" unfolding eP1 .
  have absm: "2 ^ 52 \<le> \<bar>m\<bar> \<and> \<bar>m\<bar> \<le> 2 ^ 53"
  proof (cases "0 \<le> x")
    case True
    then have a: "real_of_int (2 ^ 52) \<le> x * P" and b: "x * P \<le> real_of_int (2 ^ 53)"
      using lo hi by simp_all
    have "2 ^ 52 \<le> m" unfolding m_def using a by (rule round_half_even_ge)
    moreover have "m \<le> 2 ^ 53" unfolding m_def using b by (rule round_half_even_le)
    ultimately show ?thesis by simp
  next
    case False
    then have a: "x * P \<le> real_of_int (- (2 ^ 52))" and b: "real_of_int (- (2 ^ 53)) \<le> x * P"
      using lo hi by simp_all
    have "m \<le> - (2 ^ 52)" unfolding m_def using a by (rule round_half_even_le)
    moreover have "- (2 ^ 53) \<le> m" unfolding m_def using b by (rule round_half_even_ge)
    ultimately show ?thesis by simp
  qed
  then have m0: "m \<noteq> 0" by auto
  then have y0: "y \<noteq> 0" using P by (simp add: y)
  have absy: "\<bar>y\<bar> = real_of_int \<bar>m\<bar> / P" using P by (simp add: y)
  define e' where "e' = expo y"
  define P' where "P' = pow2 (52 - e')"
  have P': "0 < P'" by (simp add: P'_def pow2_pos)
  have "real_of_int \<bar>m\<bar> \<le> 2 ^ 53" using absm
    by (metis of_int_le_iff of_int_numeral of_int_power)
  then have "\<bar>y\<bar> * P \<le> pow2 (e + 1) * P" using P by (simp add: absy eP1)
  then have yhi: "\<bar>y\<bar> \<le> pow2 (e + 1)" using P by simp
  have ylo: "pow2 e' \<le> \<bar>y\<bar>" unfolding e'_def by (rule expo_lower[OF y0])
  from ylo yhi have "pow2 e' \<le> pow2 (e + 1)" by simp
  then have ee: "e' \<le> e + 1" by (rule pow2_mono_rev)
  have "\<exists>j. y * P' = real_of_int j"
  proof (cases "e' \<le> e")
    case True
    have "P' = pow2 (e - e') * P" unfolding P'_def P_def pow2_add[symmetric] by simp
    also have "pow2 (e - e') = of_int (2 ^ nat (e - e'))"
      using True by (simp add: pow2_nonneg_int)
    finally have "y * P' = real_of_int (m * 2 ^ nat (e - e'))" using P by (simp add: y)
    then show ?thesis by blast
  next
    case False
    with ee have e'eq: "e' = e + 1" by simp
    from ylo yhi have "\<bar>y\<bar> = pow2 (e + 1)" by (simp add: e'eq)
    then have "real_of_int \<bar>m\<bar> = 2 ^ 53" using P eP1 by (simp add: absy field_simps)
    then have "\<bar>m\<bar> = 2 ^ 53"
      by (metis of_int_eq_iff of_int_numeral of_int_power)
    then have "m = 2 ^ 53 \<or> m = - (2 ^ 53)" by (auto simp: abs_if split: if_splits)
    then have "even m" by auto
    then have m2: "m = 2 * (m div 2)" by simp
    have "P = 2 * P'" unfolding P'_def P_def e'eq
      using pow2_add[of 1 "52 - (e + 1)"] by (simp add: pow2_def)
    then have "y * P' = real_of_int m / 2" using P' by (simp add: y)
    also have "\<dots> = real_of_int (m div 2)" using m2 by (metis nonzero_mult_div_cancel_left of_int_mult of_int_numeral zero_neq_numeral)
    finally show ?thesis by blast
  qed
  then obtain j where j: "y * P' = real_of_int j" by blast
  have "fl y = of_int (round_half_even (y * P')) / P'"
    using y0 by (simp add: fl_def Let_def e'_def P'_def)
  also have "\<dots> = of_int j / P'" by (simp add: j round_half_even_def)
  also have "\<dots> = y" using P' j by (simp add: field_simps)
  finally show ?thesis by (simp add: y_def)
qed



lemma fl_abs_lower: "\<bar>x\<bar> - \<bar>x\<bar> / 2 ^ 53 \<le> \<bar>fl x\<bar>"
  using fl_err[of x] by linarith




lemma fl_small_ints:
  "fl 2 = 2" "fl 39 = 39" "fl (- 85) = - 85" "fl 38000 = 38000" "fl 520 = 520" "fl 270 = 270"
  "fl 400 = 400" "fl 20 = 20"
  by (simp_all add: fl_def expo_def pow2_def round_half_even_def Let_def compute_bitlen)

lemma float_range_big: "(1000000::real) < 2 ^ 1024 - 2 ^ 970"
  by simp

section \<open>Waypoints\<close>

lemma fl_bound_180: "\<bar>q\<bar> \<le> 179 \<Longrightarrow> \<bar>fl q\<bar> \<le> 180"
  using fl_abs_le[of q 179] by simp

lemma airports_are_doubles:
  "list_all (\<lambda>(c, a). fl (ap_lat a) = ap_lat a \<and> fl (ap_lon a) = ap_lon a \<and>
                       \<bar>ap_lat a\<bar> \<le> 180 \<and> \<bar>ap_lon a\<bar> \<le> 180) AIRPORTS_items"
  by (simp add: AIRPORTS_items_def fl_idem fl_bound_180)

lemma airport_double:
  assumes "AIRPORTS A = Some a"
  shows "fl (ap_lat a) = ap_lat a" "fl (ap_lon a) = ap_lon a"
        "\<bar>ap_lat a\<bar> \<le> 180" "\<bar>ap_lon a\<bar> \<le> 180"
proof -
  from assms have "(A, a) \<in> set AIRPORTS_items"
    unfolding AIRPORTS_def by (rule map_of_SomeD)
  with airports_are_doubles
  have "fl (ap_lat a) = ap_lat a \<and> fl (ap_lon a) = ap_lon a \<and>
        \<bar>ap_lat a\<bar> \<le> 180 \<and> \<bar>ap_lon a\<bar> \<le> 180"
    unfolding list_all_iff by fastforce
  then show "fl (ap_lat a) = ap_lat a" "fl (ap_lon a) = ap_lon a"
        "\<bar>ap_lat a\<bar> \<le> 180" "\<bar>ap_lon a\<bar> \<le> 180" by simp_all
qed

lemma interp_first:
  "fl s = s \<Longrightarrow> fadd s (fmul (fsub d s) (fdiv (real 0) 20)) = s"
  by (simp add: fadd_def fmul_def fdiv_def fl_0)

lemma interp_last:
  assumes s: "\<bar>s\<bar> \<le> 180" and d: "\<bar>d\<bar> \<le> 180"
  shows "\<bar>fadd s (fmul (fsub d s) (fdiv (real 20) 20)) - d\<bar> \<le> 1 / 2 ^ 43"
proof -
  define u where "u = d - s"
  define u1 where "u1 = fl u"
  define r where "r = fl (s + u1)"
  have eq: "fadd s (fmul (fsub d s) (fdiv (real 20) 20)) = r"
    by (simp add: fadd_def fmul_def fsub_def fdiv_def fl_1 fl_idem r_def u1_def u_def)
  have u: "\<bar>u\<bar> \<le> 360" using s d by (simp add: u_def)
  have e1: "\<bar>u1 - u\<bar> \<le> 360 / 2 ^ 53"
    using fl_err[of u] u unfolding u1_def by simp
  have small: "\<bar>u1 - u\<bar> \<le> 1" using e1 by (rule order_trans) simp
  have "s + u1 = d + (u1 - u)" by (simp add: u_def)
  then have a3: "\<bar>s + u1\<bar> \<le> 181" using d small by linarith
  have e3: "\<bar>r - (s + u1)\<bar> \<le> 181 / 2 ^ 53"
    using fl_err[of "s + u1"] a3 unfolding r_def by simp
  have "r - d = (r - (s + u1)) + (u1 - u)" by (simp add: u_def)
  then have "\<bar>r - d\<bar> \<le> \<bar>r - (s + u1)\<bar> + \<bar>u1 - u\<bar>" by linarith
  also have "\<dots> \<le> 181 / 2 ^ 53 + 360 / 2 ^ 53" using e1 e3 by (rule add_mono[rotated])
  also have "\<dots> \<le> 1 / 2 ^ 43" by simp
  finally have "\<bar>r - d\<bar> \<le> 1 / 2 ^ 43" .
  then show ?thesis unfolding eq by simp
qed

lemma fraction_err:
  assumes i: "i \<le> (20::nat)"
  shows "\<bar>fdiv (real i) 20 - real i / 20\<bar> \<le> 1 / 2 ^ 53" and "\<bar>fdiv (real i) 20\<bar> \<le> 1001 / 1000"
proof -
  define t where "t = real i / 20"
  have t: "0 \<le> t" "t \<le> 1" using i by (simp_all add: t_def)
  have "\<bar>fl t - t\<bar> \<le> \<bar>t\<bar> / 2 ^ 53" by (rule fl_err)
  also have "\<dots> \<le> 1 / 2 ^ 53" using t by (intro divide_right_mono) simp_all
  finally have e: "\<bar>fl t - t\<bar> \<le> 1 / 2 ^ 53" .
  then show "\<bar>fdiv (real i) 20 - real i / 20\<bar> \<le> 1 / 2 ^ 53" by (simp add: fdiv_def t_def)
  have "(1::real) / 2 ^ 53 \<le> 1 / 1000" by simp
  with e t have "\<bar>fl t\<bar> \<le> 1001 / 1000" by linarith
  then show "\<bar>fdiv (real i) 20\<bar> \<le> 1001 / 1000" by (simp add: fdiv_def t_def)
qed

lemma interp_err:
  assumes s: "\<bar>s\<bar> \<le> 180" and d: "\<bar>d\<bar> \<le> 180" and i: "i \<le> (20::nat)"
  shows "\<bar>fadd s (fmul (fsub d s) (fdiv (real i) 20)) - (s + (d - s) * (real i / 20))\<bar>
           \<le> 1 / 2 ^ 42"
proof -
  define t where "t = real i / 20"
  define p where "p = fdiv (real i) 20"
  define u where "u = d - s"
  define u1 where "u1 = fl u"
  define m where "m = fl (u1 * p)"
  define r where "r = fl (s + m)"
  have eq: "fadd s (fmul (fsub d s) (fdiv (real i) 20)) = r"
    by (simp add: fadd_def fmul_def fsub_def r_def m_def u1_def u_def p_def)
  have ep: "\<bar>p - t\<bar> \<le> 1 / 2 ^ 53" and ap: "\<bar>p\<bar> \<le> 1001 / 1000"
    using fraction_err[OF i] by (simp_all add: p_def t_def)
  have u: "\<bar>u\<bar> \<le> 360" using s d by (simp add: u_def)
  have eu: "\<bar>u1 - u\<bar> \<le> 360 / 2 ^ 53"
    using fl_err[of u] u unfolding u1_def by simp
  have "(360::real) / 2 ^ 53 \<le> 1 / 1000" by simp
  with eu u have au: "\<bar>u1\<bar> \<le> 361" by linarith
  have "\<bar>u1 * p\<bar> = \<bar>u1\<bar> * \<bar>p\<bar>" by (rule abs_mult)
  also have "\<dots> \<le> 361 * (1001 / 1000)" using au ap by (intro mult_mono) simp_all
  finally have aup: "\<bar>u1 * p\<bar> \<le> 362" by simp
  have em: "\<bar>m - u1 * p\<bar> \<le> 362 / 2 ^ 53"
    using fl_err[of "u1 * p"] aup unfolding m_def by simp
  have "(362::real) / 2 ^ 53 \<le> 1" by simp
  with em aup have am: "\<bar>m\<bar> \<le> 363" by linarith
  have asm: "\<bar>s + m\<bar> \<le> 543" using s am by linarith
  have er: "\<bar>r - (s + m)\<bar> \<le> 543 / 2 ^ 53"
    using fl_err[of "s + m"] asm unfolding r_def by simp
  have "\<bar>(u1 - u) * p\<bar> = \<bar>u1 - u\<bar> * \<bar>p\<bar>" by (rule abs_mult)
  also have "\<dots> \<le> (360 / 2 ^ 53) * (1001 / 1000)" using eu ap by (intro mult_mono) simp_all
  finally have e1: "\<bar>(u1 - u) * p\<bar> \<le> 361 / 2 ^ 53" by simp
  have "\<bar>u * (p - t)\<bar> = \<bar>u\<bar> * \<bar>p - t\<bar>" by (rule abs_mult)
  also have "\<dots> \<le> 360 * (1 / 2 ^ 53)" using u ep by (intro mult_mono) simp_all
  finally have e2: "\<bar>u * (p - t)\<bar> \<le> 360 / 2 ^ 53" by simp
  have "r - (s + u * t) = (r - (s + m)) + (m - u1 * p) + (u1 - u) * p + u * (p - t)"
    by (simp add: algebra_simps)
  then have "\<bar>r - (s + u * t)\<bar> \<le> 543 / 2 ^ 53 + 362 / 2 ^ 53 + 361 / 2 ^ 53 + 360 / 2 ^ 53"
    using er em e1 e2 by linarith
  also have "\<dots> \<le> 1 / 2 ^ 42" by simp
  finally show ?thesis unfolding eq by (simp add: u_def t_def)
qed

lemma progress_err:
  assumes i: "i \<le> (20::nat)"
  shows "\<bar>fmul (fdiv (real i) 20) 100 - real i / 20 * 100\<bar> \<le> 1 / 2 ^ 45"
proof -
  define t where "t = real i / 20"
  define p where "p = fdiv (real i) 20"
  have ep: "\<bar>p - t\<bar> \<le> 1 / 2 ^ 53" and ap: "\<bar>p\<bar> \<le> 1001 / 1000"
    using fraction_err[OF i] by (simp_all add: p_def t_def)
  have a: "\<bar>p * 100\<bar> \<le> 101" using ap by simp
  have e: "\<bar>fl (p * 100) - p * 100\<bar> \<le> 101 / 2 ^ 53"
    using fl_err[of "p * 100"] a by simp
  have "\<bar>fl (p * 100) - t * 100\<bar> \<le> 101 / 2 ^ 53 + 100 / 2 ^ 53" using e ep by linarith
  also have "\<dots> \<le> 1 / 2 ^ 45" by simp
  finally show ?thesis by (simp add: fmul_def p_def t_def)
qed

lemma progress_first: "fmul (fdiv (real 0) 20) 100 = 0"
  by (simp add: fmul_def fdiv_def fl_0)

lemma progress_last: "fmul (fdiv (real 20) 20) 100 = 100"
  by (simp add: fmul_def fdiv_def fl_1 fl_100)

lemma airport_of_known: "AIRPORTS A = Some a \<Longrightarrow> airport_of (VStr A) = Some a"
  by (auto simp: airport_of_def truthy_def AIRPORTS_def AIRPORTS_items_def split: if_splits)

lemma get_route_waypoints_known:
  assumes "AIRPORTS A = Some a" and "AIRPORTS B = Some b"
  shows "get_route_waypoints (VStr A) (VStr B) 20 = Inr (map (waypoint_at a b 20) [0 ..< 21])"
  by (simp add: get_route_waypoints_def airport_of_known[OF assms(1)] airport_of_known[OF assms(2)])

lemma nth_waypoints:
  assumes "i \<le> 20"
  shows "map (waypoint_at a b 20) [0 ..< 21] ! i =
           \<lparr>wp_lat = fadd (ap_lat a) (fmul (fsub (ap_lat b) (ap_lat a)) (fdiv (real i) 20)),
            wp_lon = fadd (ap_lon a) (fmul (fsub (ap_lon b) (ap_lon a)) (fdiv (real i) 20)),
            wp_progress = fmul (fdiv (real i) 20) 100\<rparr>"
proof -
  have "i < length [0 ..< (21::nat)]" using assms by simp
  then have "map (waypoint_at a b 20) [0 ..< 21] ! i = waypoint_at a b 20 ([0 ..< 21] ! i)"
    by (rule nth_map)
  also have "[0 ..< (21::nat)] ! i = i" using assms by (simp del: upt_Suc upt_rec_numeral)
  also have "waypoint_at a b 20 i =
           \<lparr>wp_lat = fadd (ap_lat a) (fmul (fsub (ap_lat b) (ap_lat a)) (fdiv (real i) 20)),
            wp_lon = fadd (ap_lon a) (fmul (fsub (ap_lon b) (ap_lon a)) (fdiv (real i) 20)),
            wp_progress = fmul (fdiv (real i) 20) 100\<rparr>"
    by (simp add: waypoint_at_def Let_def)
  finally show ?thesis .
qed

text \<open>
  Claim C7, as the code has it. For known airport codes A and B,
  \<^verbatim>\<open>get_route_waypoints(A, B, 20)\<close> returns 21 points. The point of index \<open>i\<close>, for every
  \<open>i\<close> from 0 to 20, is the binary64 value of \<open>A + (B - A) * (i / 20)\<close> in each coordinate,
  which lies within \<open>2\<^sup>-\<^sup>4\<^sup>2\<close> degrees of the exact linear interpolation, and carries the
  binary64 value of \<open>(i / 20) * 100\<close> as progress, within \<open>2\<^sup>-\<^sup>4\<^sup>5\<close> of the exact percentage.
  The first point is A exactly, with progress 0. The last point has progress 100 and lies
  within \<open>2\<^sup>-\<^sup>4\<^sup>3\<close> degrees of B in each coordinate: it is \<open>A + (B - A)\<close> after two
  roundings, which need not be B.
\<close>

theorem waypoints_20:
  assumes A: "AIRPORTS A = Some a" and B: "AIRPORTS B = Some b"
  shows "\<exists>ws. get_route_waypoints (VStr A) (VStr B) 20 = Inr ws
       \<and> length ws = 21
       \<and> (\<forall>i\<le>20.
            wp_lat (ws ! i) = fadd (ap_lat a) (fmul (fsub (ap_lat b) (ap_lat a)) (fdiv (real i) 20))
          \<and> wp_lon (ws ! i) = fadd (ap_lon a) (fmul (fsub (ap_lon b) (ap_lon a)) (fdiv (real i) 20))
          \<and> wp_progress (ws ! i) = fmul (fdiv (real i) 20) 100
          \<and> \<bar>wp_lat (ws ! i) - (ap_lat a + (ap_lat b - ap_lat a) * (real i / 20))\<bar> \<le> 1 / 2 ^ 42
          \<and> \<bar>wp_lon (ws ! i) - (ap_lon a + (ap_lon b - ap_lon a) * (real i / 20))\<bar> \<le> 1 / 2 ^ 42
          \<and> \<bar>wp_progress (ws ! i) - real i / 20 * 100\<bar> \<le> 1 / 2 ^ 45)
       \<and> ws ! 0 = \<lparr>wp_lat = ap_lat a, wp_lon = ap_lon a, wp_progress = 0\<rparr>
       \<and> \<bar>wp_lat (ws ! 20) - ap_lat b\<bar> \<le> 1 / 2 ^ 43
       \<and> \<bar>wp_lon (ws ! 20) - ap_lon b\<bar> \<le> 1 / 2 ^ 43
       \<and> wp_progress (ws ! 20) = 100"
proof -
  note da = airport_double[OF A] and db = airport_double[OF B]
  define ws where "ws = map (waypoint_at a b 20) [0 ..< 21]"
  have nth: "ws ! i =
           \<lparr>wp_lat = fadd (ap_lat a) (fmul (fsub (ap_lat b) (ap_lat a)) (fdiv (real i) 20)),
            wp_lon = fadd (ap_lon a) (fmul (fsub (ap_lon b) (ap_lon a)) (fdiv (real i) 20)),
            wp_progress = fmul (fdiv (real i) 20) 100\<rparr>" if "i \<le> 20" for i
    unfolding ws_def using that by (rule nth_waypoints)
  have 0: "get_route_waypoints (VStr A) (VStr B) 20 = Inr ws"
    unfolding ws_def by (rule get_route_waypoints_known[OF A B])
  have 1: "length ws = 21" by (simp add: ws_def)
  have 2: "\<forall>i\<le>20.
            wp_lat (ws ! i) = fadd (ap_lat a) (fmul (fsub (ap_lat b) (ap_lat a)) (fdiv (real i) 20))
          \<and> wp_lon (ws ! i) = fadd (ap_lon a) (fmul (fsub (ap_lon b) (ap_lon a)) (fdiv (real i) 20))
          \<and> wp_progress (ws ! i) = fmul (fdiv (real i) 20) 100
          \<and> \<bar>wp_lat (ws ! i) - (ap_lat a + (ap_lat b - ap_lat a) * (real i / 20))\<bar> \<le> 1 / 2 ^ 42
          \<and> \<bar>wp_lon (ws ! i) - (ap_lon a + (ap_lon b - ap_lon a) * (real i / 20))\<bar> \<le> 1 / 2 ^ 42
          \<and> \<bar>wp_progress (ws ! i) - real i / 20 * 100\<bar> \<le> 1 / 2 ^ 45"
  proof (intro allI impI)
    fix i :: nat assume i: "i \<le> 20"
    show "wp_lat (ws ! i) = fadd (ap_lat a) (fmul (fsub (ap_lat b) (ap_lat a)) (fdiv (real i) 20))
          \<and> wp_lon (ws ! i) = fadd (ap_lon a) (fmul (fsub (ap_lon b) (ap_lon a)) (fdiv (real i) 20))
          \<and> wp_progress (ws ! i) = fmul (fdiv (real i) 20) 100
          \<and> \<bar>wp_lat (ws ! i) - (ap_lat a + (ap_lat b - ap_lat a) * (real i / 20))\<bar> \<le> 1 / 2 ^ 42
          \<and> \<bar>wp_lon (ws ! i) - (ap_lon a + (ap_lon b - ap_lon a) * (real i / 20))\<bar> \<le> 1 / 2 ^ 42
          \<and> \<bar>wp_progress (ws ! i) - real i / 20 * 100\<bar> \<le> 1 / 2 ^ 45"
      unfolding nth[OF i] waypoint.simps
      using interp_err[OF da(3) db(3) i] interp_err[OF da(4) db(4) i] progress_err[OF i]
      by (intro conjI) (rule refl | assumption)+
  qed
  have 3: "ws ! 0 = \<lparr>wp_lat = ap_lat a, wp_lon = ap_lon a, wp_progress = 0\<rparr>"
    unfolding nth[of 0, simplified]
    using interp_first[OF da(1)] interp_first[OF da(2)] progress_first by simp
  have 4: "\<bar>wp_lat (ws ! 20) - ap_lat b\<bar> \<le> 1 / 2 ^ 43"
    unfolding nth[of 20, simplified] using interp_last[OF da(3) db(3)] by simp
  have 5: "\<bar>wp_lon (ws ! 20) - ap_lon b\<bar> \<le> 1 / 2 ^ 43"
    unfolding nth[of 20, simplified] using interp_last[OF da(4) db(4)] by simp
  have 6: "wp_progress (ws ! 20) = 100"
    unfolding nth[of 20, simplified] using progress_last by simp
  from 0 1 2 3 4 5 6 show ?thesis by blast
qed

lemma AIRPORTS_JFK:
  "AIRPORTS ''JFK'' = Some \<lparr>ap_lat = fl (406413 / 10000), ap_lon = fl (- 737781 / 10000),
              ap_name = ''John F. Kennedy International''\<rparr>"
  by (simp add: AIRPORTS_def AIRPORTS_items_def)

lemma AIRPORTS_LAX:
  "AIRPORTS ''LAX'' = Some \<lparr>ap_lat = fl (339416 / 10000), ap_lon = fl (- 1184085 / 10000),
              ap_name = ''Los Angeles International''\<rparr>"
  by (simp add: AIRPORTS_def AIRPORTS_items_def)

lemma AIRPORTS_LHR:
  "AIRPORTS ''LHR'' = Some \<lparr>ap_lat = fl (514700 / 10000), ap_lon = fl (- 4543 / 10000),
              ap_name = ''London Heathrow''\<rparr>"
  by (simp add: AIRPORTS_def AIRPORTS_items_def)

theorem waypoints_20_witness:
  "length (projr (get_route_waypoints (VStr ''JFK'') (VStr ''LAX'') 20)) = 21
   \<and> wp_lat (projr (get_route_waypoints (VStr ''JFK'') (VStr ''LAX'') 20) ! 0) = fl (406413 / 10000)
   \<and> wp_lon (projr (get_route_waypoints (VStr ''JFK'') (VStr ''LAX'') 20) ! 0) = fl (- 737781 / 10000)
   \<and> \<bar>wp_lat (projr (get_route_waypoints (VStr ''JFK'') (VStr ''LAX'') 20) ! 10)
        - (fl (406413 / 10000) + (fl (339416 / 10000) - fl (406413 / 10000)) * (10 / 20))\<bar>
       \<le> 1 / 2 ^ 42
   \<and> \<bar>wp_progress (projr (get_route_waypoints (VStr ''JFK'') (VStr ''LAX'') 20) ! 10) - 50\<bar>
       \<le> 1 / 2 ^ 45
   \<and> \<bar>wp_lat (projr (get_route_waypoints (VStr ''JFK'') (VStr ''LAX'') 20) ! 20) - fl (339416 / 10000)\<bar>
       \<le> 1 / 2 ^ 43"
proof -
  from waypoints_20[OF AIRPORTS_JFK AIRPORTS_LAX]
  obtain ws where ws: "get_route_waypoints (VStr ''JFK'') (VStr ''LAX'') 20 = Inr ws"
    and len: "length ws = 21"
    and mid: "\<forall>i\<le>20.
       \<bar>wp_lat (ws ! i) - (fl (406413 / 10000) + (fl (339416 / 10000) - fl (406413 / 10000)) * (real i / 20))\<bar>
          \<le> 1 / 2 ^ 42
       \<and> \<bar>wp_progress (ws ! i) - real i / 20 * 100\<bar> \<le> 1 / 2 ^ 45"
    and first: "ws ! 0 = \<lparr>wp_lat = fl (406413 / 10000), wp_lon = fl (- 737781 / 10000), wp_progress = 0\<rparr>"
    and last: "\<bar>wp_lat (ws ! 20) - fl (339416 / 10000)\<bar> \<le> 1 / 2 ^ 43"
    by (simp only: airport.simps) blast
  from mid have "\<bar>wp_lat (ws ! 10) - (fl (406413 / 10000) + (fl (339416 / 10000) - fl (406413 / 10000)) * (real 10 / 20))\<bar>
          \<le> 1 / 2 ^ 42
       \<and> \<bar>wp_progress (ws ! 10) - real 10 / 20 * 100\<bar> \<le> 1 / 2 ^ 45"
    by (rule allE[of _ 10]) simp
  then have m10: "\<bar>wp_lat (ws ! 10) - (fl (406413 / 10000) + (fl (339416 / 10000) - fl (406413 / 10000)) * (10 / 20))\<bar>
          \<le> 1 / 2 ^ 42" and p10: "\<bar>wp_progress (ws ! 10) - 50\<bar> \<le> 1 / 2 ^ 45"
    by simp_all
  show ?thesis unfolding ws sum.sel using len m10 p10 first last by simp
qed

lemma JFK_lon: "fl (- 737781 / 10000) = - 162239757650441 / 2199023255552"
  by (simp add: fl_def expo_def pow2_def round_half_even_def Let_def compute_bitlen)

lemma LHR_lon: "fl (- 4543 / 10000) = - 8183941242857665 / 18014398509481984"
  by (simp add: fl_def expo_def pow2_def round_half_even_def Let_def compute_bitlen)

lemma LHR_lon_normal: "fl (- (4543 / 10000)) = - (8183941242857665 / 18014398509481984)"
  using LHR_lon by simp

lemma JFK_LHR_last_lon:
  "fadd (- 162239757650441 / 2199023255552)
     (fmul (fsub (- 8183941242857665 / 18014398509481984) (- 162239757650441 / 2199023255552))
        (fdiv (of_nat 20) (of_int 20)))
   = - 31968520479913 / 70368744177664"
  by (simp add: fadd_def fmul_def fsub_def fdiv_def fl_1 fl_idem)
     (simp add: fl_def expo_def pow2_def round_half_even_def Let_def compute_bitlen)

text \<open>
  The route from JFK to LHR: the longitude of the last waypoint differs from the longitude
  of LHR in the table (\<^verbatim>\<open>-0.4543000000000035\<close> against \<^verbatim>\<open>-0.4543\<close>).
\<close>

theorem waypoints_last_point_inexact:
  "length (projr (get_route_waypoints (VStr ''JFK'') (VStr ''LHR'') 20)) = 21
   \<and> wp_lon (projr (get_route_waypoints (VStr ''JFK'') (VStr ''LHR'') 20) ! 20)
       = - 31968520479913 / 70368744177664
   \<and> map_option ap_lon (AIRPORTS ''LHR'') = Some (- 8183941242857665 / 18014398509481984)
   \<and> (- 31968520479913 / 70368744177664 :: real) \<noteq> - 8183941242857665 / 18014398509481984"
proof -
  have n20: "[0 ..< 21] ! 20 = 20" by simp
  have "wp_lon (waypoint_at
          \<lparr>ap_lat = fl (406413 / 10000), ap_lon = fl (- 737781 / 10000),
              ap_name = ''John F. Kennedy International''\<rparr>
          \<lparr>ap_lat = fl (514700 / 10000), ap_lon = fl (- 4543 / 10000),
              ap_name = ''London Heathrow''\<rparr> 20 20) = - 31968520479913 / 70368744177664"
    unfolding waypoint_at_def Let_def using JFK_LHR_last_lon
    by (simp only: waypoint.simps airport.simps JFK_lon LHR_lon)
  then show ?thesis
    using get_route_waypoints_known[OF AIRPORTS_JFK AIRPORTS_LHR]
    by (simp add: nth_map n20 AIRPORTS_LHR LHR_lon_normal del: upt_Suc upt_rec_numeral)
qed

section \<open>Distances with a correctly rounded library\<close>



























section \<open>Route progress\<close>




lemma py_round2_100 [simp]: "py_round2 100 = 100"
proof -
  have "round_half_even (100 * 100) = 10000" using round_half_even_of_int[of 10000] by simp
  then show ?thesis by (simp add: py_round2_def fl_100)
qed

lemma py_round2_0 [simp]: "py_round2 0 = 0"
  by (simp add: py_round2_def round_half_even_def fl_0)





















section \<open>Facts about the sample inputs\<close>

lemma py_float_num:
  assumes "\<bar>r\<bar> \<le> 1000000"
  shows "py_float P (Some (VNum r)) = Inr (Fin (fl r))"
  using assms float_range_big by (simp add: py_float_def)





lemma sample_cruise_validate:
  "validate sample_lib sample_report_cruise =
     Inr \<lparr>v_latitude = 39, v_longitude = - 85,
          v_altitude = Fin 38000, v_speed = Fin 520, v_heading = 270, v_timestamp = 1704067200000\<rparr>"
proof -
  have 1: "py_float sample_lib (sample_report_cruise ''latitude'') = Inr (Fin 39)"
    using py_float_num[of 39 sample_lib] by (simp add: sample_report_cruise_def fl_small_ints)
  have 2: "py_float sample_lib (sample_report_cruise ''longitude'') = Inr (Fin (- 85))"
    using py_float_num[of "- 85" sample_lib] by (simp add: sample_report_cruise_def fl_small_ints)
  have 3: "py_float sample_lib (sample_report_cruise ''altitude'') = Inr (Fin 38000)"
    using py_float_num[of 38000 sample_lib] by (simp add: sample_report_cruise_def fl_small_ints)
  have 4: "py_float sample_lib (sample_report_cruise ''speed'') = Inr (Fin 520)"
    using py_float_num[of 520 sample_lib] by (simp add: sample_report_cruise_def fl_small_ints)
  have 5: "py_float sample_lib (sample_report_cruise ''heading'') = Inr (Fin 270)"
    using py_float_num[of 270 sample_lib] by (simp add: sample_report_cruise_def fl_small_ints)
  have c: "convert_numeric sample_lib sample_report_cruise =
     Inr \<lparr>c_latitude = Fin 39, c_longitude = Fin (- 85),
          c_altitude = Fin 38000, c_speed = Fin 520, c_heading = Fin 270\<rparr>"
    unfolding convert_numeric_def 1 2 3 4 5 by simp
  have r: "check_ranges \<lparr>c_latitude = Fin 39, c_longitude = Fin (- 85),
          c_altitude = Fin 38000, c_speed = Fin 520, c_heading = Fin 270\<rparr> = Inr (39, - 85, 270)"
    by (simp add: check_ranges_def in_range_def negative_def)
  have p: "list_all (\<lambda>field. sample_report_cruise field \<noteq> None) required_fields"
    by (simp add: required_fields_def sample_report_cruise_def)
  have t: "sample_report_cruise ''timestamp'' = Some (VStr ''2024-01-01T00:00:00Z'')"
    by (simp add: sample_report_cruise_def)
  have z: "fromisoformat sample_lib (replace_Z ''2024-01-01T00:00:00Z'') = Some 1704067200000"
    by (simp add: sample_lib_def replace_Z_def)
  show ?thesis unfolding validate_def c sum.case r using p by (simp add: t z)
qed

section \<open>Ingestion and archival of a single flight\<close>


lemma in_range_Some: "in_range lo hi x = Some r \<longleftrightarrow> x = Fin r \<and> lo \<le> r \<and> r \<le> hi"
  by (auto simp: in_range_def split: pyfloat.splits if_splits)






lemma flight_update_id:
  "flight_update_of P now data v = Inr upd \<Longrightarrow> fs_flight_id upd = dict_get data ''flight_id''"
  by (auto simp: flight_update_of_def Let_def split: if_splits sum.splits)

lemma set_fields_id [simp]: "fs_flight_id (set_fields old upd) = fs_flight_id upd"
  by (simp add: set_fields_def)

lemma find_one_update_one_same:
  "fs_flight_id upd = fid \<Longrightarrow>
   find_one fid (update_one fid upd fs) =
     Some (case find_one fid fs of None \<Rightarrow> upd | Some f \<Rightarrow> set_fields f upd)"
  by (induction fs) (auto simp: find_one_def)

lemma find_one_update_one_other:
  "fs_flight_id upd = fid' \<Longrightarrow> fid \<noteq> fid' \<Longrightarrow>
   find_one fid (update_one fid' upd fs) = find_one fid fs"
  by (induction fs) (auto simp: find_one_def)

lemma set_opt_Some [simp]: "set_opt (Some x) old = Some x"
  by (simp add: set_opt_def)

lemma set_opt_None [simp]: "set_opt None old = old"
  by (simp add: set_opt_def)





text \<open>
  Claim C5. For a flight id without history documents \<^verbatim>\<open>complete_flight\<close> answers 404 and
  leaves the three collections as they were.
\<close>

theorem complete_flight_not_found:
  assumes "find_tracking (VStr flight_id) (tracking st) = []"
  shows "complete_flight now st flight_id = (Err 404 ''No data for this flight'', st)"
  using assms by (simp add: complete_flight_def)

theorem complete_flight_not_found_witness:
  "find_tracking (VStr ''TST9'') (tracking \<lparr>flights = [sample_state], tracking = [sample_point], logs = []\<rparr>) = []
   \<and> complete_flight 1704067300000 \<lparr>flights = [sample_state], tracking = [sample_point], logs = []\<rparr> ''TST9''
       = (Err 404 ''No data for this flight'',
          \<lparr>flights = [sample_state], tracking = [sample_point], logs = []\<rparr>)"
proof -
  have h: "find_tracking (VStr ''TST9'')
             (tracking \<lparr>flights = [sample_state], tracking = [sample_point], logs = []\<rparr>) = []"
    by (simp add: find_tracking_def sample_point_def)
  from complete_flight_not_found[OF h, of 1704067300000] h show ?thesis by simp
qed

lemma flight_update_ready:
  assumes "flight_update_of P now data v = Inr upd"
  shows "fs_ready_for_completion upd = None \<or> fs_ready_for_completion upd = Some True"
  using assms by (auto simp: flight_update_of_def Let_def split: if_splits sum.splits)

lemma update_flight_keeps_ready:
  assumes "find_one fid (flights st) = Some f" and "fs_ready_for_completion f = Some True"
  shows "\<exists>f'. find_one fid (flights (snd (update_flight P now st data))) = Some f'
             \<and> fs_ready_for_completion f' = Some True"
proof (cases "validate P data")
  case (Inl r)
  then show ?thesis using assms by (simp add: update_flight_def)
next
  case (Inr v)
  show ?thesis
  proof (cases "flight_update_of P now data v")
    case (Inl e)
    then show ?thesis using Inr assms by (simp add: update_flight_def Let_def)
  next
    case upd: (Inr upd)
    let ?fid = "dict_get data ''flight_id''"
    have id: "fs_flight_id upd = ?fid" using upd by (rule flight_update_id)
    have fl: "flights (snd (update_flight P now st data)) = update_one ?fid upd (flights st)"
      using Inr upd by (simp add: update_flight_def Let_def)
    show ?thesis
    proof (cases "fid = ?fid")
      case True
      have "find_one fid (update_one ?fid upd (flights st)) = Some (set_fields f upd)"
        using assms(1) True id by (simp add: find_one_update_one_same)
      moreover have "fs_ready_for_completion (set_fields f upd) = Some True"
        using flight_update_ready[OF upd] assms(2) by (auto simp: set_fields_def)
      ultimately show ?thesis unfolding fl by simp
    next
      case False
      then show ?thesis unfolding fl using assms id by (simp add: find_one_update_one_other)
    qed
  qed
qed

text \<open>
  Claim C8. Once the flight state of a flight id has \<^verbatim>\<open>ready_for_completion\<close> true, it
  still has it after any sequence of \<^verbatim>\<open>update_flight\<close> requests, accepted or rejected, for
  this or any other flight id.
\<close>

theorem ready_for_completion_persists:
  assumes "find_one fid (flights st) = Some f" and "fs_ready_for_completion f = Some True"
  shows "\<exists>f'. find_one fid (flights (run P (map (\<lambda>(now, data). (now, Update data)) reports) st))
                 = Some f'
             \<and> fs_ready_for_completion f' = Some True"
  using assms
proof (induction reports arbitrary: st f)
  case Nil
  then show ?case by simp
next
  case (Cons r reports)
  obtain now data where r: "r = (now, data)" by (cases r)
  from update_flight_keeps_ready[OF Cons.prems, of P now data]
  obtain f' where "find_one fid (flights (snd (update_flight P now st data))) = Some f'"
      and "fs_ready_for_completion f' = Some True" by blast
  from Cons.IH[OF this] show ?case by (simp add: r handle_def)
qed

theorem ready_for_completion_persists_witness:
  "map fs_ready_for_completion (flights \<lparr>flights = [sample_state], tracking = [sample_point], logs = []\<rparr>)
     = [Some True]
   \<and> map (\<lambda>f. (fs_status f, fs_ready_for_completion f))
        (flights (run sample_lib [(1704067260000, Update sample_report_cruise)]
           \<lparr>flights = [sample_state], tracking = [sample_point], logs = []\<rparr>))
     = [(VStr ''en-route'', Some True)]"
proof -
  let ?st = "\<lparr>flights = [sample_state], tracking = [sample_point], logs = []\<rparr>"
  let ?v = "\<lparr>v_latitude = 39, v_longitude = - 85,
                 v_altitude = Fin 38000, v_speed = Fin 520, v_heading = 270,
                 v_timestamp = 1704067200000\<rparr>"
  have f: "find_one (VStr ''TST1'') (flights ?st) = Some sample_state"
    by (simp add: find_one_def sample_state_def)
  have r: "fs_ready_for_completion sample_state = Some True"
    by (simp add: sample_state_def)
  obtain upd where upd: "flight_update_of sample_lib 1704067260000 sample_report_cruise ?v = Inr upd"
    and ust: "fs_status upd = VStr ''en-route''" and uid: "fs_flight_id upd = VStr ''TST1''"
    by (simp add: flight_update_of_def Let_def dict_get_def sample_report_cruise_def)
  have fl: "flights (run sample_lib [(1704067260000, Update sample_report_cruise)] ?st)
        = [set_fields sample_state upd]"
  proof -
    have id: "dict_get sample_report_cruise ''flight_id'' = VStr ''TST1''"
      by (simp add: dict_get_def sample_report_cruise_def)
    show ?thesis
      by (simp add: handle_def update_flight_def sample_cruise_validate id upd Let_def
          sample_state_def)
  qed
  have st: "fs_status (set_fields sample_state upd) = VStr ''en-route''"
    using ust by (simp add: set_fields_def)
  from ready_for_completion_persists[OF f r, of sample_lib "[(1704067260000, sample_report_cruise)]"]
  obtain f' where a: "find_one (VStr ''TST1'')
        (flights (run sample_lib [(1704067260000, Update sample_report_cruise)] ?st)) = Some f'"
    and b: "fs_ready_for_completion f' = Some True"
    by (auto simp del: run.simps)
  from a have "f' = set_fields sample_state upd"
    unfolding fl by (simp add: find_one_def split: if_splits)
  with b st r show ?thesis unfolding fl by simp
qed

section \<open>Validation errors\<close>

lemma missing_message_names_no_field: "list_all (\<lambda>f. \<not> mentions ''Missing one or more required fields'' f) required_fields" by code_simp
lemma type_message_names_no_field: "list_all (\<lambda>f. \<not> mentions ''Invalid data types for numeric fields'' f) numeric_fields" by code_simp

lemma update_flight_rejected: "validate P data = Inl r \<Longrightarrow> update_flight P now st data = (r, st)"
  by (simp add: update_flight_def)


lemma validate_present:
  assumes "\<forall>field \<in> set required_fields. data field \<noteq> None"
  shows "validate P data =
           (case convert_numeric P data of
              Inl e \<Rightarrow> Inl (conversion_failure e)
            | Inr c \<Rightarrow>
                (case check_ranges c of
                   Inl msg \<Rightarrow> Inl (Err 400 msg)
                 | Inr (lat, lon, hdg) \<Rightarrow>
                     (case data ''timestamp'' of
                        Some (VStr s) \<Rightarrow>
                          (case fromisoformat P (replace_Z s) of
                             Some t \<Rightarrow> Inr \<lparr>v_latitude = lat, v_longitude = lon,
                                            v_altitude = c_altitude c, v_speed = c_speed c,
                                            v_heading = hdg, v_timestamp = t\<rparr>
                           | None \<Rightarrow> Inl (Err 400 ''Invalid timestamp format. Use ISO format''))
                      | _ \<Rightarrow> Inl (Unhandled AttributeError))))"
  using assms by (simp add: validate_def list_all_iff)




























text \<open>
  Two reports that the validation does not reject with status 400: a timestamp that is not
  a string, and a latitude that is an integer beyond the range of a double. The handler
  fails with an exception it does not catch, and the store is unchanged.
\<close>

lemma timestamp_not_a_string:
  "update_flight sample_lib 1704067260000 empty_store
     (sample_report_cruise(''timestamp'' \<mapsto> VNum 1704067200))
   = (Unhandled AttributeError, empty_store)"
proof -
  let ?d = "sample_report_cruise(''timestamp'' \<mapsto> VNum 1704067200)"
  have p: "\<forall>field \<in> set required_fields. ?d field \<noteq> None"
    by (simp add: required_fields_def sample_report_cruise_def)
  have f: "py_float sample_lib (?d ''latitude'') = Inr (Fin 39)"
    "py_float sample_lib (?d ''longitude'') = Inr (Fin (- 85))"
    "py_float sample_lib (?d ''altitude'') = Inr (Fin 38000)"
    "py_float sample_lib (?d ''speed'') = Inr (Fin 520)"
    "py_float sample_lib (?d ''heading'') = Inr (Fin 270)"
    using py_float_num[of 39 sample_lib] py_float_num[of "- 85" sample_lib]
      py_float_num[of 38000 sample_lib] py_float_num[of 520 sample_lib]
      py_float_num[of 270 sample_lib]
    by (simp_all add: sample_report_cruise_def fl_small_ints)
  have c: "convert_numeric sample_lib ?d =
     Inr \<lparr>c_latitude = Fin 39, c_longitude = Fin (- 85),
          c_altitude = Fin 38000, c_speed = Fin 520, c_heading = Fin 270\<rparr>"
    unfolding convert_numeric_def f by simp
  have r: "check_ranges \<lparr>c_latitude = Fin 39, c_longitude = Fin (- 85),
          c_altitude = Fin 38000, c_speed = Fin 520, c_heading = Fin 270\<rparr> = Inr (39, - 85, 270)"
    by (simp add: check_ranges_def in_range_def negative_def)
  have "validate sample_lib ?d = Inl (Unhandled AttributeError)"
    unfolding validate_present[OF p] c sum.case r by simp
  then show ?thesis by (rule update_flight_rejected)
qed

lemma latitude_beyond_double:
  "update_flight sample_lib 1704067260000 empty_store
     (sample_report_cruise(''latitude'' \<mapsto> VNum (10 ^ 400)))
   = (Unhandled OverflowError, empty_store)"
proof -
  let ?d = "sample_report_cruise(''latitude'' \<mapsto> VNum (10 ^ 400))"
  have p: "\<forall>field \<in> set required_fields. ?d field \<noteq> None"
    by (simp add: required_fields_def sample_report_cruise_def)
  have "py_float sample_lib (?d ''latitude'') = Inl OverflowError"
    by (simp add: py_float_def)
  then have "convert_numeric sample_lib ?d = Inl OverflowError"
    by (simp add: convert_numeric_def)
  then have "validate sample_lib ?d = Inl (Unhandled OverflowError)"
    unfolding validate_present[OF p] by (simp add: conversion_failure_def)
  then show ?thesis by (rule update_flight_rejected)
qed

end
